theory Spec2Isabelle
  imports Main "HOL-Library.Word"
begin

section \<open>The GSSAPI authenticator of \<^verbatim>\<open>mongo_kerberos_native.c\<close>\<close>

text \<open>
  The extension defines the Ruby class \<open>Mongo::Auth::GSSAPIAuthenticator\<close> with the methods
  \<open>initialize\<close> (\<open>a_init\<close>), \<open>initialize_challenge\<close> and \<open>evaluate_challenge\<close>, and the
  callback \<open>sasl_interact\<close>. The functions call libsasl2 and the Ruby runtime, neither of
  which is part of the sources: what those calls answer is an input of the model.

  \<^item> A C \<open>char\<close> buffer holding text is a \<open>string\<close>; a buffer holding a raw token is a list
    of bytes. A pointer with its length is the list it spans.
  \<^item> \<open>unsigned int\<close> is \<open>32 word\<close>; \<open>(int)RSTRING_LEN(s)\<close> stored in an \<open>unsigned\<close> is the
    length of \<open>s\<close> reduced modulo \<open>2 ^ 32\<close> (\<open>long\<close> of 64 bits).
  \<^item> \<open>rb_raise\<close> leaves the function at once; the instance variables set before it stay set.
    A raise is a value of \<open>outcome\<close>, with the arguments of its format string.
  \<^item> The calls to \<open>puts\<close> and \<open>printf\<close> write to standard output only and are left out.
\<close>

subsection \<open>Data\<close>

type_synonym byte = "8 word"
type_synonym uint = "32 word"

text \<open>A \<open>sasl_conn_t *\<close> handed out by \<open>sasl_client_new\<close>: an opaque handle.\<close>

type_synonym conn = nat

text \<open>
  The instance variables of the authenticator object. \<open>context_ivar\<close> is \<open>None\<close> while
  \<open>@context\<close> has never been set (\<open>rb_iv_get\<close> answers \<open>nil\<close>); otherwise it is the
  connection wrapped by \<open>Data_Wrap_Struct\<close>.
\<close>

record authenticator =
  valid :: bool
  user_name :: string
  host_name :: string
  service_name :: string
  canonicalize_host_name :: bool
  context_ivar :: "conn option"

text \<open>
  The exceptions the functions raise, one constructor for each format string:
  \<^item> \<open>Gssapi_error msg result diag\<close> is \<open>raise_gssapi_error(msg, result)\<close>, the message
    \<open>"%s (code %d: %s)"\<close> with \<open>diag = sasl_errstring(result)\<close>
    (the specification's \<open>NegotiationError{code, message}\<close>);
  \<^item> \<open>Unexpected_mechanism m\<close> is
    \<open>"sasl_client_start selected an unexpected mechanism: %s"\<close>
    (the specification's \<open>MechanismMismatchError{selected}\<close>);
  \<^item> \<open>Encode64_overrun written allowed\<close> is
    \<open>"sasl_encode64 claimed to write %u bytes when up to %lu bytes were allowed"\<close>
    (the specification's \<open>EncodingOverflowError{written, capacity}\<close>);
  \<^item> \<open>ProtocolStateError\<close> is raised by the runtime when \<open>@context\<close> holds no wrapped
    connection.
  The first three are all of the one Ruby class \<open>Mongo::GssapiNative::Error\<close>.
\<close>

datatype error =
    Gssapi_error string int string
  | Unexpected_mechanism string
  | Encode64_overrun uint nat
  | ProtocolStateError

text \<open>
  How a call of a method ends: it returns a Ruby string, it raises, or it runs into
  behaviour the C standard leaves undefined (\<open>strcmp\<close> on a null pointer).
\<close>

datatype outcome = Return string | Raise error | Undefined_behaviour

subsection \<open>The library as the functions see it\<close>

text \<open>
  What \<open>sasl_client_start\<close> hands back: its result code, the span
  \<open>raw_payload\<close>/\<open>raw_payload_len\<close>, and \<open>mechanism_selected\<close>, a \<open>const char *\<close> that
  is \<open>None\<close> when it is the null pointer.
\<close>

record start_reply =
  start_result :: int
  raw_payload :: "byte list"
  mechanism_selected :: "string option"

text \<open>
  libsasl2 at the moment of one call of a method. Every field is what the library function
  of that name answers for the given arguments:
  \<^item> \<open>errstring result\<close> is \<open>sasl_errstring(result, NULL, NULL)\<close>;
  \<^item> \<open>client_new servicename hostname\<close> is the result code of \<open>sasl_client_new\<close> and
    the connection it stores in \<open>conn\<close>;
  \<^item> \<open>client_start conn mechanism_list\<close> is \<open>sasl_client_start\<close>;
  \<^item> \<open>client_step conn input\<close> is the result code of \<open>sasl_client_step\<close> and the span
    \<open>out\<close>/\<open>outlen\<close>;
  \<^item> \<open>encode64 input outmax\<close> and \<open>decode64 input outmax\<close> are the result code of
    \<open>sasl_encode64\<close> and \<open>sasl_decode64\<close>, the bytes found in the destination buffer after
    the call, and the length stored in \<open>outlen\<close>.
\<close>

record sasl =
  errstring :: "int \<Rightarrow> string"
  client_new :: "string \<Rightarrow> string \<Rightarrow> int \<times> conn"
  client_start :: "conn \<Rightarrow> string \<Rightarrow> start_reply"
  client_step :: "conn \<Rightarrow> byte list \<Rightarrow> int \<times> byte list"
  encode64 :: "byte list \<Rightarrow> nat \<Rightarrow> int \<times> string \<times> uint"
  decode64 :: "string \<Rightarrow> nat \<Rightarrow> int \<times> byte list \<times> uint"

text \<open>The calls into the library a method makes, in order, with their arguments.\<close>

datatype sasl_call =
    Client_new string string
  | Client_start conn string
  | Decode64 string nat
  | Client_step conn "byte list"
  | Encode64 "byte list" nat

text \<open>
  Modelled from the spec: the result codes are macros of \<open><sasl/sasl.h>\<close>, which is not
  among the sources. The specification tells success, "more negotiation required"
  (\<open>SASL_CONTINUE\<close>) and the negative failure codes apart (its failure scenario has code
  \<open>-1\<close>); the numerals are the ones of the header.
\<close>

definition SASL_CONTINUE :: int where
  "SASL_CONTINUE = 1"

definition SASL_OK :: int where
  "SASL_OK = 0"

definition SASL_FAIL :: int where
  "SASL_FAIL = - 1"

definition SASL_BUFOVER :: int where
  "SASL_BUFOVER = - 3"

definition SASL_BADPROT :: int where
  "SASL_BADPROT = - 5"

text \<open>
  Modelled from the spec: the callback identifiers are macros of \<open><sasl/sasl.h>\<close>, which is
  not among the sources. The specification names the two recognised kinds, \<open>USER_NAME\<close> and
  \<open>AUTH_NAME\<close>; the numerals are the ones of the header.
\<close>

definition SASL_CB_USER :: int where
  "SASL_CB_USER = 16385"

definition SASL_CB_AUTHNAME :: int where
  "SASL_CB_AUTHNAME = 16386"

subsection \<open>The functions\<close>

text \<open>\<open>a_init\<close> on a newly allocated object: five instance variables, no \<open>@context\<close>.\<close>

definition a_init :: "string \<Rightarrow> string \<Rightarrow> string \<Rightarrow> bool \<Rightarrow> authenticator" where
  "a_init user host service canonicalize =
     \<lparr>valid = True, user_name = user, host_name = host, service_name = service,
      canonicalize_host_name = canonicalize, context_ivar = None\<rparr>"

definition is_sasl_failure :: "int \<Rightarrow> bool" where
  "is_sasl_failure result = (result < 0)"

definition raise_gssapi_error :: "sasl \<Rightarrow> string \<Rightarrow> int \<Rightarrow> error" where
  "raise_gssapi_error lib msg result = Gssapi_error msg result (errstring lib result)"

text \<open>
  Modelled from the spec: \<open>Data_Get_Struct\<close> is a macro of \<open><ruby.h>\<close>, which is not among the
  sources. By the specification, retrieving a Context before one has been created is
  signalled as \<open>ProtocolStateError\<close>; otherwise the macro yields the wrapped pointer.
\<close>

definition Data_Get_Struct :: "conn option \<Rightarrow> error + conn" where
  "Data_Get_Struct obj = (case obj of None \<Rightarrow> Inl ProtocolStateError | Some conn \<Rightarrow> Inr conn)"

definition mongo_sasl_context :: "authenticator \<Rightarrow> error + conn" where
  "mongo_sasl_context self = Data_Get_Struct (context_ivar self)"

text \<open>The size of each of the three arrays \<open>char [4096]\<close>.\<close>

definition sizeof_payload :: nat where
  "sizeof_payload = 4096"

text \<open>
  \<open>sasl_interact(self, id, result, len)\<close>. The answer is the result code, what was stored
  through \<open>result\<close> and through \<open>len\<close> (\<open>None\<close>: nothing was stored), and the object after
  the call. \<open>len_given\<close> says that \<open>len\<close> is not the null pointer.
\<close>

definition sasl_interact ::
  "authenticator \<Rightarrow> int \<Rightarrow> bool \<Rightarrow> int \<times> string option \<times> uint option \<times> authenticator" where
  "sasl_interact self ident len_given =
     (if ident = SASL_CB_AUTHNAME \<or> ident = SASL_CB_USER
      then (SASL_OK, Some (user_name self),
            (if len_given then Some (word_of_nat (length (user_name self))) else None), self)
      else (SASL_FAIL, None, None, self))"

text \<open>
  \<open>initialize_challenge(self)\<close>: the outcome, the object after the call and the calls made
  into the library. \<open>@service_name\<close> and \<open>@host_name\<close> reach \<open>sasl_client_new\<close> as C
  strings; they are taken to hold no NUL byte, so that the C string is the whole name.
\<close>

definition initialize_challenge ::
  "sasl \<Rightarrow> authenticator \<Rightarrow> outcome \<times> authenticator \<times> sasl_call list" where
  "initialize_challenge lib self =
     (let mechanism_list = ''GSSAPI'';
          servicename = service_name self;
          hostname = host_name self;
          calls0 = [Client_new servicename hostname]
      in case client_new lib servicename hostname of (result0, conn) \<Rightarrow>
        if result0 \<noteq> SASL_OK
        then (Raise (raise_gssapi_error lib ''sasl_client_new failed'' result0), self, calls0)
        else
          let self1 = self\<lparr>context_ivar := Some conn\<rparr>;
              started = client_start lib conn mechanism_list;
              result = start_result started;
              calls1 = calls0 @ [Client_start conn mechanism_list]
          in
            if is_sasl_failure result
            then (Raise (raise_gssapi_error lib ''sasl_client_start failed'' result),
                  self1, calls1)
            else (case mechanism_selected started of
              None \<Rightarrow> (Undefined_behaviour, self1, calls1)
            | Some mech \<Rightarrow>
                if mech \<noteq> ''GSSAPI''
                then (Raise (Unexpected_mechanism mech), self1, calls1)
                else if result \<noteq> SASL_CONTINUE
                then (Raise (raise_gssapi_error lib
                        ''sasl_client_start did not return SASL_CONTINUE'' result),
                      self1, calls1)
                else
                  let calls2 = calls1 @ [Encode64 (raw_payload started) (sizeof_payload - 1)]
                  in case encode64 lib (raw_payload started) (sizeof_payload - 1) of
                    (result2, encoded_payload, encoded_payload_len) \<Rightarrow>
                      if is_sasl_failure result2
                      then (Raise (raise_gssapi_error lib
                              ''sasl_encode64 failed to encode the payload'' result2),
                            self1, calls2)
                      else if unat encoded_payload_len \<ge> sizeof_payload
                      then (Raise (Encode64_overrun encoded_payload_len sizeof_payload),
                            self1, calls2)
                      else (Return (take (unat encoded_payload_len) encoded_payload),
                            self1, calls2)))"

text \<open>
  \<open>evaluate_challenge(self, rb_payload)\<close>, for \<open>rb_payload\<close> a Ruby string. The context is
  fetched first, in the declaration of \<open>conn\<close>. The payload reaches \<open>sasl_decode64\<close> as
  a pointer and the length \<open>(int)RSTRING_LEN(rb_payload)\<close> held in an \<open>unsigned int\<close>.
  The method does not compare the lengths the codec reports with the size of its arrays:
  the span handed to \<open>sasl_client_step\<close> and the string returned are the reported number of
  bytes from the start of the buffer, cut where the codec's answer ends. A reported length
  beyond the 4096 bytes of the array is an over-read in C, which this cut does not show.
\<close>

definition evaluate_challenge ::
  "sasl \<Rightarrow> authenticator \<Rightarrow> string \<Rightarrow> outcome \<times> authenticator \<times> sasl_call list" where
  "evaluate_challenge lib self rb_payload =
     (case mongo_sasl_context self of
        Inl e \<Rightarrow> (Raise e, self, [])
      | Inr conn \<Rightarrow>
          let step_payload_len = (word_of_nat (length rb_payload) :: uint);
              step_payload = take (unat step_payload_len) rb_payload;
              calls1 = [Decode64 step_payload (sizeof_payload - 1)]
          in case decode64 lib step_payload (sizeof_payload - 1) of
            (result, base_payload, base_payload_len) \<Rightarrow>
              if is_sasl_failure result
              then (Raise (raise_gssapi_error lib
                      ''sasl_decode64 failed to decode the payload'' result), self, calls1)
              else
                let input = take (unat base_payload_len) base_payload;
                    calls2 = calls1 @ [Client_step conn input]
                in case client_step lib conn input of (result2, out) \<Rightarrow>
                  if is_sasl_failure result2
                  then (Raise (raise_gssapi_error lib ''sasl_client_step failed'' result2),
                        self, calls2)
                  else
                    let calls3 = calls2 @ [Encode64 out (sizeof_payload - 1)]
                    in case encode64 lib out (sizeof_payload - 1) of
                      (result3, payload, payload_len) \<Rightarrow>
                        if is_sasl_failure result3
                        then (Raise (raise_gssapi_error lib
                                ''sasl_encode64 failed to encode the payload'' result3),
                              self, calls3)
                        else (Return (take (unat payload_len) payload), self, calls3))"

text \<open>The three parts of what a method call yields.\<close>

abbreviation outcome_of :: "outcome \<times> authenticator \<times> sasl_call list \<Rightarrow> outcome" where
  "outcome_of r \<equiv> fst r"

abbreviation self_of :: "outcome \<times> authenticator \<times> sasl_call list \<Rightarrow> authenticator" where
  "self_of r \<equiv> fst (snd r)"

abbreviation calls_of :: "outcome \<times> authenticator \<times> sasl_call list \<Rightarrow> sasl_call list" where
  "calls_of r \<equiv> snd (snd r)"

subsection \<open>Sequences of method calls\<close>

text \<open>
  A call of one of the two methods on an authenticator, with the library as it answers
  during that call, and the object a sequence of calls leaves behind (a raise leaves the
  object as it is at the raise).
\<close>

datatype method_call = Initialize_challenge sasl | Evaluate_challenge sasl string

fun call_method :: "authenticator \<Rightarrow> method_call \<Rightarrow> authenticator" where
  "call_method self (Initialize_challenge lib) = self_of (initialize_challenge lib self)"
| "call_method self (Evaluate_challenge lib rb_payload) =
     self_of (evaluate_challenge lib self rb_payload)"

text \<open>
  The connection of the last call of \<open>initialize_challenge\<close> in which \<open>sasl_client_new\<close>
  answered \<open>SASL_OK\<close> for the given names, or \<open>c\<close> when there is none.
\<close>

fun last_created :: "string \<Rightarrow> string \<Rightarrow> conn option \<Rightarrow> method_call list \<Rightarrow> conn option" where
  "last_created servicename hostname c [] = c"
| "last_created servicename hostname c (Initialize_challenge lib # calls) =
     last_created servicename hostname
       (if fst (client_new lib servicename hostname) = SASL_OK
        then Some (snd (client_new lib servicename hostname)) else c) calls"
| "last_created servicename hostname c (Evaluate_challenge lib rb_payload # calls) =
     last_created servicename hostname c calls"

subsection \<open>A library with fixed answers\<close>

text \<open>
  A library that answers every call of a function with the same value, whatever the
  arguments: a test double for the concrete runs below.
\<close>

definition stub ::
  "int \<times> conn \<Rightarrow> start_reply \<Rightarrow> int \<times> byte list \<times> uint \<Rightarrow> int \<times> byte list
   \<Rightarrow> int \<times> string \<times> uint \<Rightarrow> sasl" where
  "stub created started decoded stepped encoded =
     \<lparr>errstring = (\<lambda>result. ''generic failure''),
      client_new = (\<lambda>servicename hostname. created),
      client_start = (\<lambda>conn mechanism_list. started),
      client_step = (\<lambda>conn input. stepped),
      encode64 = (\<lambda>input outmax. encoded),
      decode64 = (\<lambda>input outmax. decoded)\<rparr>"

section \<open>The base64 codec\<close>

text \<open>
  \<open>sasl_encode64\<close> and \<open>sasl_decode64\<close> belong to libsasl2 and are not among the sources.
  The definitions of this section follow the specification: the encoded token is base64
  text with no embedded newlines, the capacity handed to the codec counts the trailing
  terminator (it is "one byte larger than the maximum payload"), and both directions reject
  what does not fit rather than truncate.
\<close>

text \<open>Modelled from the spec: the base64 alphabet, absent from the sources.\<close>

definition basis_64 :: string where
  "basis_64 = ''ABCDEFGHIJKLMNOPQRSTUVWXYZabcdefghijklmnopqrstuvwxyz0123456789+/''"

text \<open>
  Modelled from the spec: the value of a base64 character, \<open>None\<close> for a character outside
  the alphabet; absent from the sources.
\<close>

definition CHAR64 :: "char \<Rightarrow> nat option" where
  "CHAR64 c = map_of (zip basis_64 [0..<64]) c"

text \<open>
  Modelled from the spec: base64 writes a group of three bytes as four 6-bit values and
  reads it back from them; none of the arithmetic is among the sources. The first 6-bit
  value is the upper six bits of the first byte.
\<close>

definition sextet0 :: "byte \<Rightarrow> nat" where
  "sextet0 b0 = unat b0 div 4"

text \<open>
  Modelled from the spec: the second 6-bit value of a group, the lower two bits of the first
  byte and the upper four of the second (base64; absent from the sources).
\<close>

definition sextet1 :: "byte \<Rightarrow> byte \<Rightarrow> nat" where
  "sextet1 b0 b1 = unat b0 mod 4 * 16 + unat b1 div 16"

text \<open>
  Modelled from the spec: the third 6-bit value of a group, the lower four bits of the second
  byte and the upper two of the third (base64; absent from the sources).
\<close>

definition sextet2 :: "byte \<Rightarrow> byte \<Rightarrow> nat" where
  "sextet2 b1 b2 = unat b1 mod 16 * 4 + unat b2 div 64"

text \<open>
  Modelled from the spec: the fourth 6-bit value of a group, the lower six bits of the third
  byte (base64; absent from the sources).
\<close>

definition sextet3 :: "byte \<Rightarrow> nat" where
  "sextet3 b2 = unat b2 mod 64"

text \<open>
  Modelled from the spec: the first byte of a group, from its first two 6-bit values, cut to
  eight bits (base64; absent from the sources).
\<close>

definition octet0 :: "nat \<Rightarrow> nat \<Rightarrow> byte" where
  "octet0 v0 v1 = word_of_nat (v0 * 4 + v1 div 16)"

text \<open>
  Modelled from the spec: the second byte of a group, from its second and third 6-bit values
  (base64; absent from the sources).
\<close>

definition octet1 :: "nat \<Rightarrow> nat \<Rightarrow> byte" where
  "octet1 v1 v2 = word_of_nat (v1 mod 16 * 16 + v2 div 4)"

text \<open>
  Modelled from the spec: the third byte of a group, from its third and fourth 6-bit values
  (base64; absent from the sources).
\<close>

definition octet2 :: "nat \<Rightarrow> nat \<Rightarrow> byte" where
  "octet2 v2 v3 = word_of_nat (v2 mod 4 * 64 + v3)"

text \<open>
  Modelled from the spec: the base64 text of a byte sequence, padded with \<open>=\<close> to a
  multiple of four characters; absent from the sources.
\<close>

fun encode64_chars :: "byte list \<Rightarrow> string" where
  "encode64_chars (b0 # b1 # b2 # rest) =
     basis_64 ! sextet0 b0 # basis_64 ! sextet1 b0 b1 # basis_64 ! sextet2 b1 b2
     # basis_64 ! sextet3 b2 # encode64_chars rest"
| "encode64_chars [b0, b1] =
     [basis_64 ! sextet0 b0, basis_64 ! sextet1 b0 b1, basis_64 ! sextet2 b1 0, CHR ''='']"
| "encode64_chars [b0] =
     [basis_64 ! sextet0 b0, basis_64 ! sextet1 b0 0, CHR ''='', CHR ''='']"
| "encode64_chars [] = []"

text \<open>
  Modelled from the spec: the byte sequence of a base64 text, \<open>None\<close> for a text that is
  malformed (a character outside the alphabet, a length that is no multiple of four,
  anything after the padding); absent from the sources.
\<close>

fun decode64_chars :: "string \<Rightarrow> byte list option" where
  "decode64_chars (c0 # c1 # c2 # c3 # rest) =
     (case CHAR64 c0 of None \<Rightarrow> None | Some v0 \<Rightarrow>
     (case CHAR64 c1 of None \<Rightarrow> None | Some v1 \<Rightarrow>
        if c2 = CHR ''=''
        then (if c3 = CHR ''='' \<and> rest = [] then Some [octet0 v0 v1] else None)
        else (case CHAR64 c2 of None \<Rightarrow> None | Some v2 \<Rightarrow>
          if c3 = CHR ''=''
          then (if rest = [] then Some [octet0 v0 v1, octet1 v1 v2] else None)
          else (case CHAR64 c3 of None \<Rightarrow> None | Some v3 \<Rightarrow>
            (case decode64_chars rest of None \<Rightarrow> None | Some bytes \<Rightarrow>
               Some (octet0 v0 v1 # octet1 v1 v2 # octet2 v2 v3 # bytes))))))"
| "decode64_chars [] = Some []"
| "decode64_chars _ = None"

text \<open>
  Modelled from the spec: \<open>sasl_encode64(in, inlen, out, outmax, outlen)\<close> of libsasl2,
  absent from the sources. The encoded length is stored in \<open>outlen\<close>; the text and its
  terminator are written only when they fit \<open>outmax\<close>, otherwise the call fails.
\<close>

definition sasl_encode64 :: "byte list \<Rightarrow> nat \<Rightarrow> int \<times> string \<times> uint" where
  "sasl_encode64 input outmax =
     (let olen = (length input + 2) div 3 * 4
      in if outmax \<le> olen then (SASL_BUFOVER, [], word_of_nat olen)
         else (SASL_OK, encode64_chars input @ [CHR 0x00], word_of_nat olen))"

text \<open>
  Modelled from the spec: \<open>sasl_decode64(in, inlen, out, outmax, outlen)\<close> of libsasl2,
  absent from the sources. A malformed text and a decoded form that does not fit \<open>outmax\<close>
  together with its terminator are failures; \<open>outlen\<close> is stored on success only (the
  \<open>0\<close> of a failure stands for a length the caller never reads).
\<close>

definition sasl_decode64 :: "string \<Rightarrow> nat \<Rightarrow> int \<times> byte list \<times> uint" where
  "sasl_decode64 input outmax =
     (case decode64_chars input of
        None \<Rightarrow> (SASL_BADPROT, [], 0)
      | Some bytes \<Rightarrow>
          if outmax \<le> length bytes then (SASL_BUFOVER, take outmax bytes, 0)
          else (SASL_OK, bytes @ [0], word_of_nat (length bytes)))"

text \<open>
  The mock engine of the specification's scenarios: context creation succeeds with
  connection \<open>1\<close>, start and step answer as given, and the codec is the one above.
\<close>

definition mock :: "start_reply \<Rightarrow> int \<times> byte list \<Rightarrow> sasl" where
  "mock started stepped =
     \<lparr>errstring = (\<lambda>result. ''generic failure''),
      client_new = (\<lambda>servicename hostname. (SASL_OK, 1)),
      client_start = (\<lambda>conn mechanism_list. started),
      client_step = (\<lambda>conn input. stepped),
      encode64 = sasl_encode64,
      decode64 = sasl_decode64\<rparr>"

section \<open>What the two methods do\<close>

subsection \<open>When the library is called\<close>

text \<open>
  \<open>sasl_client_start\<close> is called only after \<open>sasl_client_new\<close> has answered \<open>SASL_OK\<close>,
  on the connection it created and with the one-element mechanism list.
\<close>

lemma initialize_challenge_start_call:
  assumes "Client_start conn mechanism_list \<in> set (calls_of (initialize_challenge lib self))"
  shows "client_new lib (service_name self) (host_name self) = (SASL_OK, conn)
    \<and> mechanism_list = ''GSSAPI''"
  using assms
  by (auto simp: initialize_challenge_def Let_def split: prod.splits if_splits option.splits)

text \<open>
  \<open>sasl_encode64\<close> is called in \<open>initialize_challenge\<close> only after \<open>sasl_client_start\<close> has
  answered \<open>SASL_CONTINUE\<close> with the mechanism \<open>GSSAPI\<close>, on the payload it produced and
  with one byte less than the size of the buffer.
\<close>

lemma initialize_challenge_encode_call:
  assumes "Encode64 input outmax \<in> set (calls_of (initialize_challenge lib self))"
  shows "\<exists>conn. client_new lib (service_name self) (host_name self) = (SASL_OK, conn)
    \<and> start_result (client_start lib conn ''GSSAPI'') = SASL_CONTINUE
    \<and> mechanism_selected (client_start lib conn ''GSSAPI'') = Some ''GSSAPI''
    \<and> input = raw_payload (client_start lib conn ''GSSAPI'')
    \<and> outmax = sizeof_payload - 1"
  using assms
  by (auto simp: initialize_challenge_def Let_def is_sasl_failure_def SASL_CONTINUE_def
      split: prod.splits if_splits option.splits)

text \<open>A failure of \<open>sasl_encode64\<close> in \<open>evaluate_challenge\<close> is raised with its code.\<close>

lemma evaluate_challenge_encode_call:
  assumes "Encode64 input outmax \<in> set (calls_of (evaluate_challenge lib self rb_payload))"
    and "is_sasl_failure (fst (encode64 lib input outmax))"
  shows "outcome_of (evaluate_challenge lib self rb_payload) =
    Raise (Gssapi_error ''sasl_encode64 failed to encode the payload''
      (fst (encode64 lib input outmax)) (errstring lib (fst (encode64 lib input outmax))))"
  using assms
  by (auto simp: evaluate_challenge_def Let_def raise_gssapi_error_def
      split: prod.splits if_splits sum.splits)

text \<open>
  \<open>evaluate_challenge\<close> sets no instance variable. \<open>initialize_challenge\<close> sets
  \<open>@context\<close>, as soon as \<open>sasl_client_new\<close> has answered \<open>SASL_OK\<close>, and nothing else.
\<close>

lemma self_of_evaluate_challenge: "self_of (evaluate_challenge lib self rb_payload) = self"
  by (simp add: evaluate_challenge_def Let_def split: sum.splits prod.splits)

lemma self_of_initialize_challenge:
  "self_of (initialize_challenge lib self) =
     (if fst (client_new lib (service_name self) (host_name self)) = SASL_OK
      then self\<lparr>context_ivar := Some (snd (client_new lib (service_name self) (host_name self)))\<rparr>
      else self)"
  by (simp add: initialize_challenge_def Let_def split: prod.splits option.splits)

subsection \<open>The selected mechanism\<close>

text \<open>
  Claim C1, as amended. In every call of \<open>initialize_challenge\<close> in which
  \<open>sasl_client_start\<close> is run, its result code is not a failure (it is not negative) and
  the mechanism it selected is a string, possibly empty, other than \<open>GSSAPI\<close>, the call
  raises the unexpected-mechanism error (the specification's \<open>MechanismMismatchError\<close>)
  naming that string, and so returns no token. The mechanism is compared before the result
  code is looked at again, so this holds for \<open>SASL_OK\<close> and \<open>SASL_CONTINUE\<close> alike.
\<close>

theorem unexpected_mechanism:
  assumes "Client_start conn mechanism_list \<in> set (calls_of (initialize_challenge lib self))"
    and "\<not> is_sasl_failure (start_result (client_start lib conn mechanism_list))"
    and "mechanism_selected (client_start lib conn mechanism_list) = Some mech"
    and "mech \<noteq> ''GSSAPI''"
  shows "outcome_of (initialize_challenge lib self) = Raise (Unexpected_mechanism mech)"
proof -
  from initialize_challenge_start_call [OF assms(1)]
  have "client_new lib (service_name self) (host_name self) = (SASL_OK, conn)"
    and "mechanism_list = ''GSSAPI''" by simp_all
  with assms(2-4) show ?thesis
    by (simp add: initialize_challenge_def Let_def)
qed

text \<open>The theorem at a library that answers \<open>SASL_CONTINUE\<close> and selects the empty name.\<close>

theorem unexpected_mechanism_witness:
  "outcome_of (initialize_challenge
     (stub (SASL_OK, 1)
        \<lparr>start_result = SASL_CONTINUE, raw_payload = [1, 2], mechanism_selected = Some []\<rparr>
        (SASL_OK, [], 0) (SASL_OK, []) (SASL_OK, [], 0))
     (a_init ''alice'' ''db.example.com'' ''mongodb'' False))
   = Raise (Unexpected_mechanism [])"
  by (rule unexpected_mechanism [where conn = 1 and mechanism_list = "''GSSAPI''"])
     (simp_all add: initialize_challenge_def stub_def a_init_def is_sasl_failure_def
        SASL_OK_def SASL_CONTINUE_def Let_def)

text \<open>
  Claim C1 as stated includes a null selection. For the null pointer the comparison
  \<open>strcmp(mechanism_selected, "GSSAPI")\<close> is undefined behaviour: no exception is raised.
\<close>

theorem null_mechanism_undefined:
  "outcome_of (initialize_challenge
     (stub (SASL_OK, 1)
        \<lparr>start_result = SASL_CONTINUE, raw_payload = [1, 2], mechanism_selected = None\<rparr>
        (SASL_OK, [], 0) (SASL_OK, []) (SASL_OK, [], 0))
     (a_init ''alice'' ''db.example.com'' ''mongodb'' False))
   = Undefined_behaviour"
  by (simp add: initialize_challenge_def stub_def a_init_def is_sasl_failure_def
        SASL_OK_def SASL_CONTINUE_def Let_def)

subsection \<open>The result code of the start operation\<close>

text \<open>
  Claim C2, as amended. In every call of \<open>initialize_challenge\<close> in which
  \<open>sasl_client_start\<close> is run and answers a result code other than \<open>SASL_CONTINUE\<close>, and
  the code is a failure or the selected mechanism is \<open>GSSAPI\<close>, the call raises the error of
  \<open>raise_gssapi_error\<close> (the specification's \<open>NegotiationError\<close>) carrying that code and
  the library's diagnostic string for it, and so returns no token. This covers \<open>SASL_OK\<close>.
\<close>

theorem start_not_continue:
  assumes "Client_start conn mechanism_list \<in> set (calls_of (initialize_challenge lib self))"
    and "start_result (client_start lib conn mechanism_list) = result"
    and "result \<noteq> SASL_CONTINUE"
    and "is_sasl_failure result
      \<or> mechanism_selected (client_start lib conn mechanism_list) = Some ''GSSAPI''"
  shows "outcome_of (initialize_challenge lib self) =
    Raise (Gssapi_error
      (if is_sasl_failure result then ''sasl_client_start failed''
       else ''sasl_client_start did not return SASL_CONTINUE'')
      result (errstring lib result))"
proof -
  from initialize_challenge_start_call [OF assms(1)]
  have "client_new lib (service_name self) (host_name self) = (SASL_OK, conn)"
    and "mechanism_list = ''GSSAPI''" by simp_all
  with assms(2-4) show ?thesis
    by (auto simp: initialize_challenge_def Let_def raise_gssapi_error_def)
qed

text \<open>The theorem at a library that answers \<open>SASL_OK\<close> and selects \<open>GSSAPI\<close>.\<close>

theorem start_not_continue_witness:
  "outcome_of (initialize_challenge
     (stub (SASL_OK, 1)
        \<lparr>start_result = SASL_OK, raw_payload = [], mechanism_selected = Some ''GSSAPI''\<rparr>
        (SASL_OK, [], 0) (SASL_OK, []) (SASL_OK, [], 0))
     (a_init ''alice'' ''db.example.com'' ''mongodb'' False))
   = Raise (Gssapi_error ''sasl_client_start did not return SASL_CONTINUE'' 0 ''generic failure'')"
  using start_not_continue [where conn = 1 and mechanism_list = "''GSSAPI''" and result = 0
      and self = "a_init ''alice'' ''db.example.com'' ''mongodb'' False"
      and lib = "stub (SASL_OK, 1)
        \<lparr>start_result = SASL_OK, raw_payload = [], mechanism_selected = Some ''GSSAPI''\<rparr>
        (SASL_OK, [], 0) (SASL_OK, []) (SASL_OK, [], 0)"]
  by (simp add: initialize_challenge_def stub_def a_init_def is_sasl_failure_def
        SASL_OK_def SASL_CONTINUE_def Let_def raise_gssapi_error_def)

text \<open>
  Claim C2 as stated covers every result code other than \<open>SASL_CONTINUE\<close>. With
  \<open>SASL_OK\<close> and the mechanism \<open>PLAIN\<close>, the mechanism is compared first and the error
  raised is the unexpected-mechanism one, which carries no result code.
\<close>

theorem success_with_other_mechanism:
  "SASL_OK \<noteq> SASL_CONTINUE \<and>
   outcome_of (initialize_challenge
     (stub (SASL_OK, 1)
        \<lparr>start_result = SASL_OK, raw_payload = [], mechanism_selected = Some ''PLAIN''\<rparr>
        (SASL_OK, [], 0) (SASL_OK, []) (SASL_OK, [], 0))
     (a_init ''alice'' ''db.example.com'' ''mongodb'' False))
   = Raise (Unexpected_mechanism ''PLAIN'')"
  by (simp add: initialize_challenge_def stub_def a_init_def is_sasl_failure_def
        SASL_OK_def SASL_CONTINUE_def Let_def)

subsection \<open>Encoding\<close>

text \<open>
  Claim C3, as amended. In \<open>initialize_challenge\<close>, when \<open>sasl_encode64\<close> is run and either
  answers a failure or reports a written length of at least the buffer size, 4096, the
  call returns no token: it raises the error of \<open>raise_gssapi_error\<close> with the codec's
  code when that is a failure, and otherwise the overrun error (the specification's
  \<open>EncodingOverflowError\<close>) reporting the written length and 4096. In
  \<open>evaluate_challenge\<close>, when \<open>sasl_encode64\<close> is run and answers a failure, the call raises
  the error of \<open>raise_gssapi_error\<close> with the codec's code and returns no token.
\<close>

theorem encode_rejected:
  "(Encode64 input outmax \<in> set (calls_of (initialize_challenge lib self))
      \<and> encode64 lib input outmax = (result, buffer, written)
      \<and> (is_sasl_failure result \<or> sizeof_payload \<le> unat written)
    \<longrightarrow> outcome_of (initialize_challenge lib self) =
        Raise (if is_sasl_failure result
               then Gssapi_error ''sasl_encode64 failed to encode the payload'' result
                      (errstring lib result)
               else Encode64_overrun written sizeof_payload))
   \<and> (Encode64 input outmax \<in> set (calls_of (evaluate_challenge lib self rb_payload))
      \<and> encode64 lib input outmax = (result, buffer, written)
      \<and> is_sasl_failure result
    \<longrightarrow> outcome_of (evaluate_challenge lib self rb_payload) =
        Raise (Gssapi_error ''sasl_encode64 failed to encode the payload'' result
                 (errstring lib result)))"
proof (intro conjI impI)
  assume a: "Encode64 input outmax \<in> set (calls_of (initialize_challenge lib self))
      \<and> encode64 lib input outmax = (result, buffer, written)
      \<and> (is_sasl_failure result \<or> sizeof_payload \<le> unat written)"
  then obtain conn where
    "client_new lib (service_name self) (host_name self) = (SASL_OK, conn)"
    "start_result (client_start lib conn ''GSSAPI'') = SASL_CONTINUE"
    "mechanism_selected (client_start lib conn ''GSSAPI'') = Some ''GSSAPI''"
    "input = raw_payload (client_start lib conn ''GSSAPI'')"
    "outmax = sizeof_payload - 1"
    using initialize_challenge_encode_call by blast
  with a show "outcome_of (initialize_challenge lib self) =
        Raise (if is_sasl_failure result
               then Gssapi_error ''sasl_encode64 failed to encode the payload'' result
                      (errstring lib result)
               else Encode64_overrun written sizeof_payload)"
    by (auto simp: initialize_challenge_def Let_def raise_gssapi_error_def
        is_sasl_failure_def SASL_CONTINUE_def)
next
  assume "Encode64 input outmax \<in> set (calls_of (evaluate_challenge lib self rb_payload))
      \<and> encode64 lib input outmax = (result, buffer, written)
      \<and> is_sasl_failure result"
  then show "outcome_of (evaluate_challenge lib self rb_payload) =
        Raise (Gssapi_error ''sasl_encode64 failed to encode the payload'' result
                 (errstring lib result))"
    using evaluate_challenge_encode_call [of input outmax lib self rb_payload] by simp
qed

text \<open>
  The theorem at a codec that reports 4096 written bytes with \<open>SASL_OK\<close>, for
  \<open>initialize_challenge\<close>, and at one that fails with \<open>SASL_BUFOVER\<close>, for
  \<open>evaluate_challenge\<close>.
\<close>

theorem encode_rejected_witness:
  "outcome_of (initialize_challenge
     (stub (SASL_OK, 1)
        \<lparr>start_result = SASL_CONTINUE, raw_payload = [1, 2],
         mechanism_selected = Some ''GSSAPI''\<rparr>
        (SASL_OK, [1, 2], 2) (SASL_OK, [3, 4]) (SASL_OK, replicate 4096 (CHR ''A''), 4096))
     (a_init ''alice'' ''db.example.com'' ''mongodb'' False))
   = Raise (Encode64_overrun 4096 4096)
   \<and> outcome_of (evaluate_challenge
     (stub (SASL_OK, 1)
        \<lparr>start_result = SASL_CONTINUE, raw_payload = [1, 2],
         mechanism_selected = Some ''GSSAPI''\<rparr>
        (SASL_OK, [1, 2], 2) (SASL_OK, [3, 4]) (SASL_BUFOVER, [], 4096))
     (a_init ''alice'' ''db.example.com'' ''mongodb'' False\<lparr>context_ivar := Some 1\<rparr>) ''AQI='')
   = Raise (Gssapi_error ''sasl_encode64 failed to encode the payload'' (- 3) ''generic failure'')"
proof 
  let ?started = "\<lparr>start_result = SASL_CONTINUE, raw_payload = [1, 2],
         mechanism_selected = Some ''GSSAPI''\<rparr>"
  let ?A = "a_init ''alice'' ''db.example.com'' ''mongodb'' False"
  let ?L1 = "stub (SASL_OK, 1) ?started
        (SASL_OK, [1, 2], 2) (SASL_OK, [3, 4]) (SASL_OK, replicate 4096 (CHR ''A''), 4096)"
  let ?L2 = "stub (SASL_OK, 1) ?started
        (SASL_OK, [1, 2], 2) (SASL_OK, [3, 4]) (SASL_BUFOVER, [], 4096)"
  have "Encode64 [1, 2] 4095 \<in> set (calls_of (initialize_challenge ?L1 ?A))"
    by (simp add: initialize_challenge_def stub_def a_init_def is_sasl_failure_def
        SASL_OK_def SASL_CONTINUE_def Let_def sizeof_payload_def)
  moreover have "encode64 ?L1 [1, 2] 4095 = (SASL_OK, replicate 4096 (CHR ''A''), 4096)"
    by (simp add: stub_def)
  moreover have "sizeof_payload \<le> unat (4096 :: uint)"
    by (simp add: sizeof_payload_def)
  ultimately show "outcome_of (initialize_challenge ?L1 ?A) = Raise (Encode64_overrun 4096 4096)"
    using encode_rejected [of "[1, 2]" 4095 ?L1 ?A SASL_OK "replicate 4096 (CHR ''A'')" 4096
        "''AQI=''"]
    by (simp add: is_sasl_failure_def SASL_OK_def sizeof_payload_def)
  have "Encode64 [3, 4] 4095
      \<in> set (calls_of (evaluate_challenge ?L2 (?A\<lparr>context_ivar := Some 1\<rparr>) ''AQI=''))"
    by (simp add: evaluate_challenge_def stub_def a_init_def is_sasl_failure_def
        SASL_OK_def SASL_BUFOVER_def Let_def sizeof_payload_def mongo_sasl_context_def
        Data_Get_Struct_def)
  moreover have "encode64 ?L2 [3, 4] 4095 = (SASL_BUFOVER, [], 4096)"
    by (simp add: stub_def)
  ultimately show "outcome_of (evaluate_challenge ?L2 (?A\<lparr>context_ivar := Some 1\<rparr>) ''AQI='')
      = Raise (Gssapi_error ''sasl_encode64 failed to encode the payload'' (- 3)
          ''generic failure'')"
    using encode_rejected [of "[3, 4]" 4095 ?L2 "?A\<lparr>context_ivar := Some 1\<rparr>"
        SASL_BUFOVER "[]" 4096 "''AQI=''"]
    by (simp add: is_sasl_failure_def SASL_BUFOVER_def stub_def)
qed

text \<open>
  Claim C3 as stated promises the overrun error in both methods whenever the reported
  length reaches the buffer size. In \<open>initialize_challenge\<close> the result code is tested
  first, so a codec that fails with \<open>SASL_BUFOVER\<close> and reports 4096 bytes is answered with
  the error of \<open>raise_gssapi_error\<close>. \<open>evaluate_challenge\<close> does not compare the reported
  length with the buffer size at all: with \<open>SASL_OK\<close> and 4096 reported bytes it returns
  a string of 4096 bytes.
\<close>

theorem encode_failure_precedes_overrun:
  "outcome_of (initialize_challenge
     (stub (SASL_OK, 1)
        \<lparr>start_result = SASL_CONTINUE, raw_payload = [1, 2],
         mechanism_selected = Some ''GSSAPI''\<rparr>
        (SASL_OK, [1, 2], 2) (SASL_OK, [3, 4]) (SASL_BUFOVER, [], 4096))
     (a_init ''alice'' ''db.example.com'' ''mongodb'' False))
   = Raise (Gssapi_error ''sasl_encode64 failed to encode the payload'' (- 3) ''generic failure'')
   \<and> outcome_of (evaluate_challenge
     (stub (SASL_OK, 1)
        \<lparr>start_result = SASL_CONTINUE, raw_payload = [1, 2],
         mechanism_selected = Some ''GSSAPI''\<rparr>
        (SASL_OK, [1, 2], 2) (SASL_OK, [3, 4]) (SASL_OK, replicate 4096 (CHR ''A''), 4096))
     (a_init ''alice'' ''db.example.com'' ''mongodb'' False\<lparr>context_ivar := Some 1\<rparr>) ''AQI='')
   = Return (replicate 4096 (CHR ''A''))"
  by (simp add: initialize_challenge_def evaluate_challenge_def stub_def a_init_def
      is_sasl_failure_def SASL_OK_def SASL_CONTINUE_def SASL_BUFOVER_def Let_def
      sizeof_payload_def mongo_sasl_context_def Data_Get_Struct_def raise_gssapi_error_def)

subsection \<open>Stepping without a context\<close>

text \<open>
  Claim C5, as amended. For every authenticator whose \<open>@context\<close> has never been set,
  and every payload, \<open>evaluate_challenge\<close> raises \<open>ProtocolStateError\<close>; it calls nothing
  of the library, leaves the object unchanged and produces no token. (\<open>@context\<close> is unset
  on a new object and stays unset while \<open>sasl_client_new\<close> fails, see
  \<open>self_of_initialize_challenge\<close>.)
\<close>

theorem step_without_context:
  assumes "context_ivar self = None"
  shows "evaluate_challenge lib self rb_payload = (Raise ProtocolStateError, self, [])"
  using assms by (simp add: evaluate_challenge_def mongo_sasl_context_def Data_Get_Struct_def)

text \<open>The theorem at a newly constructed authenticator.\<close>

theorem step_without_context_witness:
  "context_ivar (a_init ''alice'' ''db.example.com'' ''mongodb'' False) = None
   \<and> evaluate_challenge
     (stub (SASL_OK, 1)
        \<lparr>start_result = SASL_CONTINUE, raw_payload = [1, 2],
         mechanism_selected = Some ''GSSAPI''\<rparr>
        (SASL_OK, [1, 2], 2) (SASL_OK, [3, 4]) (SASL_OK, ''AwQ='', 4))
     (a_init ''alice'' ''db.example.com'' ''mongodb'' False) ''AQI=''
   = (Raise ProtocolStateError, a_init ''alice'' ''db.example.com'' ''mongodb'' False, [])"
proof -
  have h: "context_ivar (a_init ''alice'' ''db.example.com'' ''mongodb'' False) = None"
    by (simp add: a_init_def)
  show ?thesis using h step_without_context [OF h] by simp
qed

text \<open>
  Claim C5 as stated speaks of every authenticator on which \<open>initialize_challenge\<close> has
  never succeeded. The method stores \<open>@context\<close> before it calls \<open>sasl_client_start\<close>, so a
  call that raises afterwards (here for the mechanism \<open>PLAIN\<close>) leaves a context behind,
  and a following \<open>evaluate_challenge\<close> runs the step and returns a token.
\<close>

theorem step_after_failed_initiate:
  "outcome_of (initialize_challenge
     (stub (SASL_OK, 1)
        \<lparr>start_result = SASL_CONTINUE, raw_payload = [],
         mechanism_selected = Some ''PLAIN''\<rparr>
        (SASL_OK, [1, 2], 2) (SASL_OK, [3, 4]) (SASL_OK, ''AwQ='', 4))
     (a_init ''alice'' ''db.example.com'' ''mongodb'' False))
   = Raise (Unexpected_mechanism ''PLAIN'')
   \<and> outcome_of (evaluate_challenge
     (stub (SASL_OK, 1)
        \<lparr>start_result = SASL_CONTINUE, raw_payload = [],
         mechanism_selected = Some ''PLAIN''\<rparr>
        (SASL_OK, [1, 2], 2) (SASL_OK, [3, 4]) (SASL_OK, ''AwQ='', 4))
     (self_of (initialize_challenge
       (stub (SASL_OK, 1)
          \<lparr>start_result = SASL_CONTINUE, raw_payload = [],
           mechanism_selected = Some ''PLAIN''\<rparr>
          (SASL_OK, [1, 2], 2) (SASL_OK, [3, 4]) (SASL_OK, ''AwQ='', 4))
       (a_init ''alice'' ''db.example.com'' ''mongodb'' False)))
     ''AQI='')
   = Return ''AwQ=''"
  by (simp add: initialize_challenge_def evaluate_challenge_def stub_def a_init_def
      is_sasl_failure_def SASL_OK_def SASL_CONTINUE_def Let_def
      sizeof_payload_def mongo_sasl_context_def Data_Get_Struct_def)

subsection \<open>The stored context\<close>

text \<open>
  Claim C6, as amended. For every authenticator and every sequence of calls of the two
  methods, the calls change nothing of the object but \<open>@context\<close>, which holds at most one
  connection: the one created by the last call of \<open>initialize_challenge\<close> in which
  \<open>sasl_client_new\<close> answered \<open>SASL_OK\<close>, or what it held before when there is no such
  call. So \<open>evaluate_challenge\<close> never stores a context, a failed creation keeps the
  stored one, and every successful creation stores the new connection, over an existing
  one too.
\<close>

theorem stored_context_after_calls:
  "foldl call_method self calls =
     self\<lparr>context_ivar :=
       last_created (service_name self) (host_name self) (context_ivar self) calls\<rparr>"
proof (induction calls arbitrary: self)
  case Nil
  show ?case by simp
next
  case (Cons c calls)
  show ?case
  proof (cases c)
    case (Initialize_challenge lib)
    then show ?thesis
      by (simp add: Cons.IH self_of_initialize_challenge)
  next
    case (Evaluate_challenge lib rb_payload)
    then show ?thesis
      by (simp add: Cons.IH self_of_evaluate_challenge)
  qed
qed

text \<open>
  The theorem at a run of three calls: a successful \<open>initialize_challenge\<close> creating
  connection 1, an \<open>evaluate_challenge\<close>, and an \<open>initialize_challenge\<close> whose creation
  fails.
\<close>

theorem stored_context_after_calls_witness:
  "context_ivar (foldl call_method (a_init ''alice'' ''db.example.com'' ''mongodb'' False)
     [Initialize_challenge (stub (SASL_OK, 1)
        \<lparr>start_result = SASL_CONTINUE, raw_payload = [1, 2],
         mechanism_selected = Some ''GSSAPI''\<rparr>
        (SASL_OK, [1, 2], 2) (SASL_OK, [3, 4]) (SASL_OK, ''AQI='', 4)),
      Evaluate_challenge (stub (SASL_FAIL, 2)
        \<lparr>start_result = SASL_CONTINUE, raw_payload = [1, 2],
         mechanism_selected = Some ''GSSAPI''\<rparr>
        (SASL_OK, [1, 2], 2) (SASL_OK, [3, 4]) (SASL_OK, ''AwQ='', 4)) ''AQI='',
      Initialize_challenge (stub (SASL_FAIL, 2)
        \<lparr>start_result = SASL_CONTINUE, raw_payload = [1, 2],
         mechanism_selected = Some ''GSSAPI''\<rparr>
        (SASL_OK, [1, 2], 2) (SASL_OK, [3, 4]) (SASL_OK, ''AQI='', 4))]) = Some 1"
  by (simp only: stored_context_after_calls)
     (simp add: a_init_def stub_def SASL_OK_def SASL_FAIL_def)

text \<open>
  Claim C6 as stated says that no call stores a second context over an existing one.
  \<open>initialize_challenge\<close> creates and stores a connection on every call: after a second call
  \<open>@context\<close> holds connection 2 where it held connection 1.
\<close>

theorem second_initiate_replaces_context:
  "context_ivar (foldl call_method (a_init ''alice'' ''db.example.com'' ''mongodb'' False)
     [Initialize_challenge (stub (SASL_OK, 1)
        \<lparr>start_result = SASL_CONTINUE, raw_payload = [1, 2],
         mechanism_selected = Some ''GSSAPI''\<rparr>
        (SASL_OK, [1, 2], 2) (SASL_OK, [3, 4]) (SASL_OK, ''AQI='', 4))]) = Some 1
   \<and> context_ivar (foldl call_method (a_init ''alice'' ''db.example.com'' ''mongodb'' False)
     [Initialize_challenge (stub (SASL_OK, 1)
        \<lparr>start_result = SASL_CONTINUE, raw_payload = [1, 2],
         mechanism_selected = Some ''GSSAPI''\<rparr>
        (SASL_OK, [1, 2], 2) (SASL_OK, [3, 4]) (SASL_OK, ''AQI='', 4)),
      Initialize_challenge (stub (SASL_OK, 2)
        \<lparr>start_result = SASL_CONTINUE, raw_payload = [1, 2],
         mechanism_selected = Some ''GSSAPI''\<rparr>
        (SASL_OK, [1, 2], 2) (SASL_OK, [3, 4]) (SASL_OK, ''AQI='', 4))]) = Some 2"
  by (simp add: initialize_challenge_def stub_def a_init_def is_sasl_failure_def
      SASL_OK_def SASL_CONTINUE_def Let_def sizeof_payload_def)

subsection \<open>Decoding failures\<close>

text \<open>
  Claim C7. In every call of \<open>evaluate_challenge\<close> in which \<open>sasl_decode64\<close> is run on the
  inbound payload and answers a failure (a negative result code), the call raises the
  error of \<open>raise_gssapi_error\<close> (the specification's \<open>NegotiationError\<close>) with the codec's
  code and the library's diagnostic string for it; the decode is the only call made into the
  library, so \<open>sasl_client_step\<close> is not run, and no token is returned.
\<close>

theorem decode_failure:
  assumes "Decode64 input outmax \<in> set (calls_of (evaluate_challenge lib self rb_payload))"
    and "decode64 lib input outmax = (result, buffer, written)"
    and "is_sasl_failure result"
  shows "evaluate_challenge lib self rb_payload =
    (Raise (Gssapi_error ''sasl_decode64 failed to decode the payload'' result
       (errstring lib result)), self, [Decode64 input outmax])"
  using assms
  by (auto simp: evaluate_challenge_def Let_def raise_gssapi_error_def
      split: prod.splits if_splits sum.splits)

text \<open>The theorem at a codec that answers \<open>SASL_BADPROT\<close>.\<close>

theorem decode_failure_witness:
  "evaluate_challenge
     (stub (SASL_OK, 1)
        \<lparr>start_result = SASL_CONTINUE, raw_payload = [1, 2],
         mechanism_selected = Some ''GSSAPI''\<rparr>
        (SASL_BADPROT, [], 0) (SASL_OK, [3, 4]) (SASL_OK, ''AwQ='', 4))
     (a_init ''alice'' ''db.example.com'' ''mongodb'' False\<lparr>context_ivar := Some 1\<rparr>) ''A?I=''
   = (Raise (Gssapi_error ''sasl_decode64 failed to decode the payload'' (- 5)
        ''generic failure''),
      a_init ''alice'' ''db.example.com'' ''mongodb'' False\<lparr>context_ivar := Some 1\<rparr>,
      [Decode64 ''A?I='' 4095])"
proof -
  let ?L = "stub (SASL_OK, 1)
        \<lparr>start_result = SASL_CONTINUE, raw_payload = [1, 2],
         mechanism_selected = Some ''GSSAPI''\<rparr>
        (SASL_BADPROT, [], 0) (SASL_OK, [3, 4]) (SASL_OK, ''AwQ='', 4)"
  let ?A = "a_init ''alice'' ''db.example.com'' ''mongodb'' False\<lparr>context_ivar := Some 1\<rparr>"
  have "Decode64 ''A?I='' 4095 \<in> set (calls_of (evaluate_challenge ?L ?A ''A?I=''))"
    by (simp add: evaluate_challenge_def stub_def is_sasl_failure_def SASL_BADPROT_def
        Let_def sizeof_payload_def mongo_sasl_context_def Data_Get_Struct_def)
  moreover have "decode64 ?L ''A?I='' 4095 = (SASL_BADPROT, [], 0)"
    by (simp add: stub_def)
  moreover have "is_sasl_failure SASL_BADPROT"
    by (simp add: is_sasl_failure_def SASL_BADPROT_def)
  ultimately show ?thesis
    using decode_failure [of "''A?I=''" 4095 ?L ?A "''A?I=''" SASL_BADPROT "[]" 0]
    by (simp add: SASL_BADPROT_def stub_def)
qed

subsection \<open>The credential callback\<close>

text \<open>
  Claim C9, as amended. For every request to \<open>sasl_interact\<close>: if the identifier is
  \<open>SASL_CB_AUTHNAME\<close> or \<open>SASL_CB_USER\<close>, the callback answers \<open>SASL_OK\<close> and hands out the
  stored \<open>user_name\<close>; when a place for the length is given, it stores there the length of
  \<open>user_name\<close> reduced modulo \<open>2 ^ 32\<close> (the exact length of every name shorter than
  \<open>2 ^ 32\<close> bytes), and when none is given it stores no length. For any other identifier
  it answers \<open>SASL_FAIL\<close> and stores nothing. In all cases the object is unchanged.
\<close>

theorem sasl_interact_answers:
  assumes "sasl_interact self ident len_given = (code, result, len, self')"
  shows "(ident = SASL_CB_AUTHNAME \<or> ident = SASL_CB_USER \<longrightarrow>
           code = SASL_OK \<and> result = Some (user_name self))
       \<and> ((ident = SASL_CB_AUTHNAME \<or> ident = SASL_CB_USER) \<and> len_given \<longrightarrow>
           map_option unat len = Some (length (user_name self) mod 2 ^ 32))
       \<and> ((ident = SASL_CB_AUTHNAME \<or> ident = SASL_CB_USER) \<and> \<not> len_given \<longrightarrow>
           len = None)
       \<and> (ident \<noteq> SASL_CB_AUTHNAME \<and> ident \<noteq> SASL_CB_USER \<longrightarrow>
           code = SASL_FAIL \<and> result = None \<and> len = None)
       \<and> self' = self"
  using assms by (auto simp: sasl_interact_def unat_of_nat split: if_splits)

text \<open>The theorem for the name \<open>alice\<close>, and for the identifier of the password.\<close>

theorem sasl_interact_answers_witness:
  "fst (sasl_interact (a_init ''alice'' ''db.example.com'' ''mongodb'' False)
     SASL_CB_USER True) = SASL_OK
   \<and> fst (snd (sasl_interact (a_init ''alice'' ''db.example.com'' ''mongodb'' False)
     SASL_CB_USER True)) = Some ''alice''
   \<and> map_option unat (fst (snd (snd (sasl_interact
     (a_init ''alice'' ''db.example.com'' ''mongodb'' False) SASL_CB_USER True)))) = Some 5
   \<and> fst (sasl_interact (a_init ''alice'' ''db.example.com'' ''mongodb'' False)
     16388 True) = SASL_FAIL"
proof -
  let ?A = "a_init ''alice'' ''db.example.com'' ''mongodb'' False"
  obtain code result len self' where
    r: "sasl_interact ?A SASL_CB_USER True = (code, result, len, self')"
    by (cases "sasl_interact ?A SASL_CB_USER True") auto
  have u: "user_name ?A = ''alice''" by (simp add: a_init_def)
  from sasl_interact_answers [OF r] u
  have 1: "code = SASL_OK" "result = Some ''alice''" "map_option unat len = Some 5"
    by simp_all
  obtain code2 result2 len2 self2 where
    r2: "sasl_interact ?A 16388 True = (code2, result2, len2, self2)"
    by (cases "sasl_interact ?A 16388 True") auto
  from sasl_interact_answers [OF r2]
  have 2: "code2 = SASL_FAIL"
    by (simp add: SASL_CB_USER_def SASL_CB_AUTHNAME_def)
  from 1 2 r r2 show ?thesis by simp
qed

text \<open>
  Claim C9 as stated promises the exact length. The length passes through
  \<open>(int)RSTRING_LEN(user_name)\<close> into an \<open>unsigned\<close>: for a name of \<open>2 ^ 32\<close> bytes the
  length stored is 0.
\<close>

theorem interact_length_wraps:
  "length (user_name (a_init (replicate 4294967296 (CHR ''a'')) ''db.example.com''
     ''mongodb'' False)) = 4294967296
   \<and> fst (snd (snd (sasl_interact (a_init (replicate 4294967296 (CHR ''a''))
     ''db.example.com'' ''mongodb'' False) SASL_CB_USER True))) = Some 0"
  by (simp add: sasl_interact_def a_init_def)

section \<open>The codec and the buffers\<close>

subsection \<open>Decoding undoes encoding\<close>

text \<open>The alphabet has 64 different characters, none of them the padding character.\<close>

lemma length_basis_64: "length basis_64 = 64"
  by (simp add: basis_64_def)

lemma distinct_basis_64: "distinct basis_64"
  by (simp add: basis_64_def)

lemma CHAR64_basis_64: "n < 64 \<Longrightarrow> CHAR64 (basis_64 ! n) = Some n"
  unfolding CHAR64_def
  using map_of_zip_nth [of basis_64 "[0..<64]" n]
  by (simp add: length_basis_64 distinct_basis_64)

lemma basis_64_not_pad: "n < 64 \<Longrightarrow> basis_64 ! n \<noteq> CHR ''=''"
proof -
  assume "n < 64"
  then have "basis_64 ! n \<in> set basis_64" by (simp add: length_basis_64)
  moreover have "CHR ''='' \<notin> set basis_64" by (simp add: basis_64_def)
  ultimately show ?thesis by metis
qed

text \<open>
  The four 6-bit values of a group are below 64, and the bytes are rebuilt from them.
\<close>

lemma unat_byte: "unat (b :: byte) < 256"
  using unsigned_less [of b] by simp

lemma div_bounds:
  fixes x :: nat
  assumes "x < 256"
  shows "x div 4 < 64" "x div 16 < 16" "x div 64 < 4"
  using assms by simp_all

lemma sextet_less:
  "sextet0 b0 < 64" "sextet1 b0 b1 < 64" "sextet2 b1 b2 < 64" "sextet3 b2 < 64"
proof -
  have m: "unat b0 mod 4 < 4" "unat b1 mod 16 < 16" by simp_all
  note d = div_bounds [OF unat_byte [of b0]] div_bounds [OF unat_byte [of b1]]
    div_bounds [OF unat_byte [of b2]]
  show "sextet0 b0 < 64" using d by (simp add: sextet0_def)
  show "sextet1 b0 b1 < 64" using d m unfolding sextet1_def by linarith
  show "sextet2 b1 b2 < 64" using d m unfolding sextet2_def by linarith
  show "sextet3 b2 < 64" by (simp add: sextet3_def)
qed

lemma regroup:
  fixes a r :: nat
  shows "r < 16 \<Longrightarrow> (a * 16 + r) div 16 = a" "r < 4 \<Longrightarrow> (a * 4 + r) div 4 = a"
    "r < 16 \<Longrightarrow> (a * 16 + r) mod 16 = r" "r < 4 \<Longrightarrow> (a * 4 + r) mod 4 = r"
  by simp_all

lemma octet0_sextets: "octet0 (sextet0 b0) (sextet1 b0 b1) = b0"
proof -
  have "sextet1 b0 b1 div 16 = unat b0 mod 4"
    unfolding sextet1_def using div_bounds(2) [OF unat_byte [of b1]] by (rule regroup(1))
  then have "sextet0 b0 * 4 + sextet1 b0 b1 div 16 = unat b0"
    by (simp add: sextet0_def)
  then show ?thesis by (simp add: octet0_def)
qed

lemma octet1_sextets: "octet1 (sextet1 b0 b1) (sextet2 b1 b2) = b1"
proof -
  have "sextet1 b0 b1 mod 16 = unat b1 div 16"
    unfolding sextet1_def using div_bounds(2) [OF unat_byte [of b1]] by (rule regroup(3))
  moreover have "sextet2 b1 b2 div 4 = unat b1 mod 16"
    unfolding sextet2_def using div_bounds(3) [OF unat_byte [of b2]] by (rule regroup(2))
  ultimately have "sextet1 b0 b1 mod 16 * 16 + sextet2 b1 b2 div 4 = unat b1"
    by simp
  then show ?thesis by (simp add: octet1_def)
qed

lemma octet2_sextets: "octet2 (sextet2 b1 b2) (sextet3 b2) = b2"
proof -
  have "sextet2 b1 b2 mod 4 = unat b2 div 64"
    unfolding sextet2_def using div_bounds(3) [OF unat_byte [of b2]] by (rule regroup(4))
  then have "sextet2 b1 b2 mod 4 * 64 + sextet3 b2 = unat b2"
    by (simp add: sextet3_def)
  then show ?thesis by (simp add: octet2_def)
qed

lemma decode64_encode64: "decode64_chars (encode64_chars bytes) = Some bytes"
proof (induction bytes rule: encode64_chars.induct)
  case (1 b0 b1 b2 rest)
  then show ?case
    by (simp add: CHAR64_basis_64 basis_64_not_pad sextet_less
        octet0_sextets octet1_sextets octet2_sextets)
next
  case (2 b0 b1)
  show ?case
    by (simp add: CHAR64_basis_64 basis_64_not_pad sextet_less octet0_sextets octet1_sextets)
next
  case (3 b0)
  show ?case
    by (simp add: CHAR64_basis_64 basis_64_not_pad sextet_less octet0_sextets)
next
  case 4
  show ?case by simp
qed

subsection \<open>Lengths\<close>

text \<open>
  A text of base64 has four characters for every three bytes, the last group padded.
\<close>

lemma group_length: "(n + 3 + 2) div 3 * 4 = 4 + (n + 2) div 3 * (4::nat)"
  by presburger

lemma length_encode64: "length (encode64_chars bytes) = (length bytes + 2) div 3 * 4"
proof (induction bytes rule: encode64_chars.induct)
  case (1 b0 b1 b2 rest)
  have "length (b0 # b1 # b2 # rest) + 2 = length rest + 3 + 2" by simp
  then have "(length (b0 # b1 # b2 # rest) + 2) div 3 * 4 = 4 + (length rest + 2) div 3 * 4"
    by (simp only: group_length)
  with 1 show ?case by simp
qed simp_all

lemma length_decode64:
  "decode64_chars encoded = Some bytes \<Longrightarrow> length encoded = (length bytes + 2) div 3 * 4"
proof (induction encoded arbitrary: bytes rule: decode64_chars.induct)
  case (1 c0 c1 c2 c3 rest)
  show ?case
  proof (cases "decode64_chars rest")
    case None
    with 1(2) show ?thesis
      by (auto split: option.splits if_splits)
  next
    case (Some tail)
    show ?thesis
    proof (cases "c2 = CHR ''='' \<or> c3 = CHR ''=''")
      case True
      with 1(2) show ?thesis
        by (auto split: option.splits if_splits)
    next
      case False
      with 1(2) Some obtain v0 v1 v2 v3 where
        v: "CHAR64 c0 = Some v0" "CHAR64 c1 = Some v1" "CHAR64 c2 = Some v2" "CHAR64 c3 = Some v3"
        and b: "bytes = octet0 v0 v1 # octet1 v1 v2 # octet2 v2 v3 # tail"
        by (auto split: option.splits if_splits)
      have "length rest = (length tail + 2) div 3 * 4"
        using 1(1) [OF v(1,2) _ v(3) _ v(4) Some] False by simp
      moreover have "length bytes + 2 = length tail + 3 + 2"
        using b by simp
      ultimately show ?thesis
        by (simp only: group_length length_Cons)
    qed
  qed
qed simp_all

text \<open>Lengths that fit an \<open>unsigned int\<close>, and the buffers cut at the stored length.\<close>

lemma unat_uint: "n < 4294967296 \<Longrightarrow> unat (word_of_nat n :: uint) = n"
  by (simp add: unat_of_nat)

lemma encoded_length_fits: "n \<le> 3069 \<Longrightarrow> (n + 2) div 3 * 4 < (4095::nat)"
  by presburger

lemma encoded_length_of_decoded: "n \<le> 4094 \<Longrightarrow> (n + 2) div 3 * 4 < (4294967296::nat)"
  by presburger

lemma take_encoded:
  assumes "(length bytes + 2) div 3 * 4 < 4294967296"
  shows "take (unat (word_of_nat (length (encode64_chars bytes)) :: uint))
           (encode64_chars bytes @ [c]) = encode64_chars bytes"
proof -
  have "unat (word_of_nat (length (encode64_chars bytes)) :: uint) = length (encode64_chars bytes)"
    using assms by (simp only: length_encode64 unat_uint)
  then show ?thesis by simp
qed

lemma take_decoded:
  assumes "length bytes < 4294967296"
  shows "take (unat (word_of_nat (length bytes) :: uint)) (bytes @ [c]) = bytes"
  using assms by (simp add: unat_uint)

lemma take_payload:
  assumes "length (rb_payload :: string) < 4294967296"
  shows "take (unat (word_of_nat (length rb_payload) :: uint)) rb_payload = rb_payload"
  using assms by (simp add: unat_uint)

subsection \<open>The codec within its capacity\<close>

lemma sasl_encode64_fits:
  assumes "(length bytes + 2) div 3 * 4 < outmax"
  shows "sasl_encode64 bytes outmax =
    (SASL_OK, encode64_chars bytes @ [CHR 0x00], word_of_nat (length (encode64_chars bytes)))"
  using assms by (simp add: sasl_encode64_def Let_def length_encode64)

lemma sasl_decode64_fits:
  assumes "decode64_chars encoded = Some bytes" and "length bytes < outmax"
  shows "sasl_decode64 encoded outmax = (SASL_OK, bytes @ [0], word_of_nat (length bytes))"
  using assms by (simp add: sasl_decode64_def)

text \<open>
  \<open>initialize_challenge\<close> returns the base64 text of a payload whose text is shorter than
  4095 characters; \<open>evaluate_challenge\<close> hands the decoded bytes to \<open>sasl_client_step\<close>
  when they are fewer than 4095, and returns the base64 text of what the step produced.
\<close>

lemma initialize_challenge_encodes:
  assumes "client_new lib (service_name self) (host_name self) = (SASL_OK, conn)"
    and "start_result (client_start lib conn ''GSSAPI'') = SASL_CONTINUE"
    and "mechanism_selected (client_start lib conn ''GSSAPI'') = Some ''GSSAPI''"
    and "encode64 lib = sasl_encode64"
    and "(length (raw_payload (client_start lib conn ''GSSAPI'')) + 2) div 3 * 4 < 4095"
  shows "outcome_of (initialize_challenge lib self) =
    Return (encode64_chars (raw_payload (client_start lib conn ''GSSAPI'')))"
proof -
  let ?bytes = "raw_payload (client_start lib conn ''GSSAPI'')"
  have e: "sasl_encode64 ?bytes 4095 =
      (SASL_OK, encode64_chars ?bytes @ [CHR 0x00],
       word_of_nat (length (encode64_chars ?bytes)))"
    using assms(5) by (rule sasl_encode64_fits)
  have l: "length (encode64_chars ?bytes) < 4095"
    using assms(5) by (simp only: length_encode64)
  then have u: "unat (word_of_nat (length (encode64_chars ?bytes)) :: uint)
      = length (encode64_chars ?bytes)"
    by (simp add: unat_uint)
  show ?thesis
    using assms(1-4) e l u
    by (simp add: initialize_challenge_def Let_def sizeof_payload_def is_sasl_failure_def
        SASL_CONTINUE_def SASL_OK_def)
qed

lemma evaluate_challenge_decodes:
  assumes "context_ivar self = Some conn"
    and "decode64 lib = sasl_decode64"
    and "decode64_chars rb_payload = Some bytes"
    and "length bytes < 4095"
  shows "take 2 (calls_of (evaluate_challenge lib self rb_payload)) =
    [Decode64 rb_payload 4095, Client_step conn bytes]"
proof -
  have "length rb_payload = (length bytes + 2) div 3 * 4"
    using assms(3) by (rule length_decode64)
  moreover have "(length bytes + 2) div 3 * 4 < 4294967296"
    using assms(4) by (intro encoded_length_of_decoded) simp
  ultimately have "length rb_payload < 4294967296"
    by (simp only:)
  then have p: "take (unat (word_of_nat (length rb_payload) :: uint)) rb_payload = rb_payload"
    by (rule take_payload)
  have d: "sasl_decode64 rb_payload 4095 = (SASL_OK, bytes @ [0], word_of_nat (length bytes))"
    using assms(3,4) by (rule sasl_decode64_fits)
  have t: "take (unat (word_of_nat (length bytes) :: uint)) (bytes @ [0]) = bytes"
    using assms(4) by (intro take_decoded) simp
  show ?thesis
    using assms(1,2) p d t
    by (simp add: evaluate_challenge_def Let_def sizeof_payload_def is_sasl_failure_def
        SASL_OK_def mongo_sasl_context_def Data_Get_Struct_def split: prod.splits)
qed

lemma evaluate_challenge_answers:
  assumes "context_ivar self = Some conn"
    and "decode64 lib = sasl_decode64" and "encode64 lib = sasl_encode64"
    and "decode64_chars rb_payload = Some bytes" and "length bytes < 4095"
    and "client_step lib conn bytes = (result, out)" and "\<not> is_sasl_failure result"
    and "(length out + 2) div 3 * 4 < 4095"
  shows "outcome_of (evaluate_challenge lib self rb_payload) = Return (encode64_chars out)"
proof -
  have "length rb_payload = (length bytes + 2) div 3 * 4"
    using assms(4) by (rule length_decode64)
  moreover have "(length bytes + 2) div 3 * 4 < 4294967296"
    using assms(5) by (intro encoded_length_of_decoded) simp
  ultimately have "length rb_payload < 4294967296"
    by (simp only:)
  then have p: "take (unat (word_of_nat (length rb_payload) :: uint)) rb_payload = rb_payload"
    by (rule take_payload)
  have d: "sasl_decode64 rb_payload 4095 = (SASL_OK, bytes @ [0], word_of_nat (length bytes))"
    using assms(4,5) by (rule sasl_decode64_fits)
  have t: "take (unat (word_of_nat (length bytes) :: uint)) (bytes @ [0]) = bytes"
    using assms(5) by (intro take_decoded) simp
  have e: "sasl_encode64 out 4095 =
      (SASL_OK, encode64_chars out @ [CHR 0x00], word_of_nat (length (encode64_chars out)))"
    using assms(8) by (rule sasl_encode64_fits)
  have u: "take (unat (word_of_nat (length (encode64_chars out)) :: uint))
      (encode64_chars out @ [CHR 0x00]) = encode64_chars out"
    using assms(8) by (intro take_encoded) simp
  show ?thesis
    using assms(1-3,6,7) p d t e u
    by (simp add: evaluate_challenge_def Let_def sizeof_payload_def is_sasl_failure_def
        SASL_OK_def mongo_sasl_context_def Data_Get_Struct_def)
qed

lemmas sextet_defs = sextet0_def sextet1_def sextet2_def sextet3_def

lemma encode64_chars_1_2: "encode64_chars [1, 2] = ''AQI=''"
  by (simp add: sextet_defs basis_64_def)

lemma encode64_chars_3_4: "encode64_chars [3, 4] = ''AwQ=''"
  by (simp add: sextet_defs basis_64_def)

subsection \<open>Round trip\<close>

text \<open>
  Claim C4, as amended. For every byte sequence of length at most 3069, decoding the result
  of encoding that sequence yields the original sequence: \<open>initialize_challenge\<close>, given the
  sequence as the payload of the start operation, returns its base64 text, and
  \<open>evaluate_challenge\<close>, given that text, decodes it and hands the original sequence to
  \<open>sasl_client_step\<close>. (3069 bytes make 4092 characters, the longest text that fits the
  capacity 4095 handed to the codec together with its terminator.)
\<close>

theorem round_trip:
  assumes "length bytes \<le> 3069"
    and "client_new lib (service_name self) (host_name self) = (SASL_OK, conn)"
    and "client_start lib conn ''GSSAPI'' =
      \<lparr>start_result = SASL_CONTINUE, raw_payload = bytes,
       mechanism_selected = Some ''GSSAPI''\<rparr>"
    and "encode64 lib = sasl_encode64"
    and "context_ivar self' = Some conn'"
    and "decode64 lib' = sasl_decode64"
  shows "outcome_of (initialize_challenge lib self) = Return (encode64_chars bytes)
    \<and> take 2 (calls_of (evaluate_challenge lib' self' (encode64_chars bytes))) =
        [Decode64 (encode64_chars bytes) 4095, Client_step conn' bytes]"
proof
  have "(length bytes + 2) div 3 * 4 < 4095"
    using assms(1) by (rule encoded_length_fits)
  with assms(2-4) initialize_challenge_encodes [of lib self conn]
  show "outcome_of (initialize_challenge lib self) = Return (encode64_chars bytes)"
    by simp
  have "length bytes < 4095" using assms(1) by simp
  with assms(5,6) decode64_encode64 [of bytes]
  show "take 2 (calls_of (evaluate_challenge lib' self' (encode64_chars bytes))) =
        [Decode64 (encode64_chars bytes) 4095, Client_step conn' bytes]"
    by (intro evaluate_challenge_decodes)
qed

text \<open>The theorem at the four bytes \<open>DE AD BE EF\<close>.\<close>

theorem round_trip_witness:
  "outcome_of (initialize_challenge
     (mock \<lparr>start_result = SASL_CONTINUE, raw_payload = [222, 173, 190, 239],
            mechanism_selected = Some ''GSSAPI''\<rparr> (SASL_OK, []))
     (a_init ''alice'' ''db.example.com'' ''mongodb'' False)) = Return ''3q2+7w==''
   \<and> take 2 (calls_of (evaluate_challenge
     (mock \<lparr>start_result = SASL_CONTINUE, raw_payload = [222, 173, 190, 239],
            mechanism_selected = Some ''GSSAPI''\<rparr> (SASL_OK, []))
     (a_init ''alice'' ''db.example.com'' ''mongodb'' False\<lparr>context_ivar := Some 1\<rparr>)
     ''3q2+7w=='')) = [Decode64 ''3q2+7w=='' 4095, Client_step 1 [222, 173, 190, 239]]"
proof -
  let ?L = "mock \<lparr>start_result = SASL_CONTINUE, raw_payload = [222, 173, 190, 239],
            mechanism_selected = Some ''GSSAPI''\<rparr> (SASL_OK, [])"
  let ?A = "a_init ''alice'' ''db.example.com'' ''mongodb'' False"
  have e: "encode64_chars [222, 173, 190, 239] = ''3q2+7w==''"
    by (simp add: sextet_defs basis_64_def)
  have "length [222, 173, 190, 239 :: byte] \<le> 3069" by simp
  moreover have "client_new ?L (service_name ?A) (host_name ?A) = (SASL_OK, 1)"
    by (simp add: mock_def)
  moreover have "client_start ?L 1 ''GSSAPI'' =
      \<lparr>start_result = SASL_CONTINUE, raw_payload = [222, 173, 190, 239],
       mechanism_selected = Some ''GSSAPI''\<rparr>"
    by (simp add: mock_def)
  moreover have "encode64 ?L = sasl_encode64" "decode64 ?L = sasl_decode64"
    by (simp_all add: mock_def)
  moreover have "context_ivar (?A\<lparr>context_ivar := Some 1\<rparr>) = Some 1" by simp
  ultimately show ?thesis
    using round_trip [of "[222, 173, 190, 239]" ?L ?A 1 "?A\<lparr>context_ivar := Some 1\<rparr>" 1 ?L]
    by (simp only: e)
qed

text \<open>
  Claim C4 as stated reaches up to 3072 bytes. Their text has 4096 characters, more than
  the capacity 4095 that \<open>initialize_challenge\<close> hands to the codec: the encoding fails.
\<close>

theorem round_trip_fails_at_3072:
  "length (replicate 3072 (0 :: byte)) = 3072
   \<and> outcome_of (initialize_challenge
     (mock \<lparr>start_result = SASL_CONTINUE, raw_payload = replicate 3072 0,
            mechanism_selected = Some ''GSSAPI''\<rparr> (SASL_OK, []))
     (a_init ''alice'' ''db.example.com'' ''mongodb'' False))
     = Raise (Gssapi_error ''sasl_encode64 failed to encode the payload'' (- 3)
         ''generic failure'')"
  by (simp add: initialize_challenge_def mock_def a_init_def Let_def sizeof_payload_def
      is_sasl_failure_def SASL_CONTINUE_def SASL_OK_def SASL_BUFOVER_def sasl_encode64_def
      raise_gssapi_error_def)

subsection \<open>The scenario of the specification\<close>

text \<open>
  Claim C8. Where the engine's start operation selects the mechanism \<open>GSSAPI\<close>, returns
  \<open>SASL_CONTINUE\<close> and produces the bytes \<open>01 02\<close>, \<open>initialize_challenge\<close> on the
  authenticator of alice returns exactly \<open>AQI=\<close>; and where the engine's step operation,
  given the bytes \<open>01 02\<close>, does not fail and produces the bytes \<open>03 04\<close>,
  \<open>evaluate_challenge\<close> on \<open>AQI=\<close> returns exactly \<open>AwQ=\<close>.
\<close>

theorem end_to_end_scenario:
  assumes "client_new lib ''mongodb'' ''db.example.com'' = (SASL_OK, conn)"
    and "client_start lib conn ''GSSAPI'' =
      \<lparr>start_result = SASL_CONTINUE, raw_payload = [1, 2],
       mechanism_selected = Some ''GSSAPI''\<rparr>"
    and "client_step lib conn [1, 2] = (result, [3, 4])"
    and "\<not> is_sasl_failure result"
    and "encode64 lib = sasl_encode64" and "decode64 lib = sasl_decode64"
  shows "outcome_of (initialize_challenge lib
           (a_init ''alice'' ''db.example.com'' ''mongodb'' False)) = Return ''AQI=''
    \<and> outcome_of (evaluate_challenge lib
           (self_of (initialize_challenge lib
              (a_init ''alice'' ''db.example.com'' ''mongodb'' False))) ''AQI='')
        = Return ''AwQ=''"
proof
  let ?A = "a_init ''alice'' ''db.example.com'' ''mongodb'' False"
  have n: "client_new lib (service_name ?A) (host_name ?A) = (SASL_OK, conn)"
    using assms(1) by (simp add: a_init_def)
  with assms(2,5) initialize_challenge_encodes [of lib ?A conn]
  have "outcome_of (initialize_challenge lib ?A) = Return (encode64_chars [1, 2])"
    by (simp del: encode64_chars.simps)
  then show "outcome_of (initialize_challenge lib ?A) = Return ''AQI=''"
    by (simp only: encode64_chars_1_2)
  have c: "context_ivar (self_of (initialize_challenge lib ?A)) = Some conn"
    using n by (simp add: self_of_initialize_challenge)
  have d: "decode64_chars ''AQI='' = Some [1, 2]"
    using decode64_encode64 [of "[1, 2]"] by (simp only: encode64_chars_1_2)
  from evaluate_challenge_answers [OF c assms(6,5) d _ assms(3,4)]
  have "outcome_of (evaluate_challenge lib (self_of (initialize_challenge lib ?A)) ''AQI='')
        = Return (encode64_chars [3, 4])"
    by (simp del: encode64_chars.simps)
  then show "outcome_of (evaluate_challenge lib (self_of (initialize_challenge lib ?A)) ''AQI='')
        = Return ''AwQ=''"
    by (simp only: encode64_chars_3_4)
qed

text \<open>The theorem at the mock engine whose step answers \<open>SASL_OK\<close>.\<close>

theorem end_to_end_scenario_witness:
  "outcome_of (initialize_challenge
     (mock \<lparr>start_result = SASL_CONTINUE, raw_payload = [1, 2],
            mechanism_selected = Some ''GSSAPI''\<rparr> (SASL_OK, [3, 4]))
     (a_init ''alice'' ''db.example.com'' ''mongodb'' False)) = Return ''AQI=''
   \<and> outcome_of (evaluate_challenge
     (mock \<lparr>start_result = SASL_CONTINUE, raw_payload = [1, 2],
            mechanism_selected = Some ''GSSAPI''\<rparr> (SASL_OK, [3, 4]))
     (self_of (initialize_challenge
       (mock \<lparr>start_result = SASL_CONTINUE, raw_payload = [1, 2],
            mechanism_selected = Some ''GSSAPI''\<rparr> (SASL_OK, [3, 4]))
       (a_init ''alice'' ''db.example.com'' ''mongodb'' False))) ''AQI='') = Return ''AwQ=''"
  by (rule end_to_end_scenario [where conn = 1 and result = SASL_OK])
     (simp_all add: mock_def is_sasl_failure_def SASL_OK_def)

subsection \<open>The capacity of the decode buffer\<close>

text \<open>
  Claim C10, as amended. For every inbound payload whose decoded form is at most 4094
  bytes, the decode performed by \<open>evaluate_challenge\<close> fits the buffer and does not fail:
  the call goes on to \<open>sasl_client_step\<close> with the decoded bytes. (The buffer has 4096
  bytes; the method hands the capacity 4095 to the codec, which keeps one byte of it for
  the terminator.)
\<close>

theorem decode_fits:
  assumes "decode64_chars rb_payload = Some bytes"
    and "length bytes \<le> 4094"
    and "context_ivar self = Some conn"
    and "decode64 lib = sasl_decode64"
  shows "take 2 (calls_of (evaluate_challenge lib self rb_payload)) =
    [Decode64 rb_payload 4095, Client_step conn bytes]"
proof -
  have "length bytes < 4095" using assms(2) by simp
  with assms(3,4,1) show ?thesis
    by (rule evaluate_challenge_decodes)
qed

text \<open>The theorem at the payload \<open>AwQ=\<close>.\<close>

theorem decode_fits_witness:
  "decode64_chars ''AwQ='' = Some [3, 4]
   \<and> take 2 (calls_of (evaluate_challenge
     (mock \<lparr>start_result = SASL_CONTINUE, raw_payload = [1, 2],
            mechanism_selected = Some ''GSSAPI''\<rparr> (SASL_FAIL, []))
     (a_init ''alice'' ''db.example.com'' ''mongodb'' False\<lparr>context_ivar := Some 7\<rparr>)
     ''AwQ='')) = [Decode64 ''AwQ='' 4095, Client_step 7 [3, 4]]"
proof -
  have d: "decode64_chars ''AwQ='' = Some [3, 4]"
    using decode64_encode64 [of "[3, 4]"] by (simp only: encode64_chars_3_4)
  have l: "length [3, 4 :: byte] \<le> 4094" by simp
  show ?thesis
    using d decode_fits [OF d l, where conn = 7]
    by (simp add: mock_def)
qed

text \<open>
  Claim C10 as stated reaches up to 4096 decoded bytes. A payload that decodes to 4096
  bytes does not fit the capacity 4095: the decode fails with \<open>SASL_BUFOVER\<close> and
  \<open>evaluate_challenge\<close> raises.
\<close>

theorem decode_overflows_at_4096:
  "decode64_chars (encode64_chars (replicate 4096 0)) = Some (replicate 4096 0)
   \<and> length (replicate 4096 (0 :: byte)) = 4096
   \<and> outcome_of (evaluate_challenge
     (mock \<lparr>start_result = SASL_CONTINUE, raw_payload = [1, 2],
            mechanism_selected = Some ''GSSAPI''\<rparr> (SASL_OK, [3, 4]))
     (a_init ''alice'' ''db.example.com'' ''mongodb'' False\<lparr>context_ivar := Some 1\<rparr>)
     (encode64_chars (replicate 4096 0)))
     = Raise (Gssapi_error ''sasl_decode64 failed to decode the payload'' (- 3)
         ''generic failure'')"
proof -
  let ?p = "encode64_chars (replicate 4096 0)"
  have "length ?p = 5464"
    by (simp add: length_encode64)
  then have "take (unat (word_of_nat (length ?p) :: uint)) ?p = ?p"
    by (intro take_payload) simp
  moreover have "sasl_decode64 ?p 4095 = (SASL_BUFOVER, take 4095 (replicate 4096 0), 0)"
    by (simp add: sasl_decode64_def decode64_encode64)
  ultimately show ?thesis
    by (simp add: decode64_encode64 evaluate_challenge_def mock_def Let_def
        sizeof_payload_def is_sasl_failure_def SASL_BUFOVER_def mongo_sasl_context_def
        Data_Get_Struct_def raise_gssapi_error_def del: take_replicate)
qed

end
